theory Spec2Isabelle
  imports Complex_Main "HOL-Library.Word"
begin

section \<open>Data model\<close>

text \<open>
  A scalar that travels from a DataFrame cell into a bound statement parameter and from
  there into a stored column, by the kind of column that holds it:
  \<open>IntV\<close> is a cell of an int64 column (read as a signed 64-bit integer),
  \<open>UIntV\<close> a cell of a uint64 column, \<open>PyIntV\<close> a Python integer in an object
  column, \<open>FloatV\<close> a finite float, \<open>InfV\<close> an infinite float (\<open>True\<close> for the
  positive one) and \<open>StrV\<close> any other object, carried as its text. A missing value
  (pandas NaN/None, SQL NULL) is \<open>None\<close> of the option type.
\<close>

datatype val =
    IntV "64 word"
  | UIntV "64 word"
  | PyIntV int
  | FloatV rat
  | InfV bool
  | StrV string

type_synonym cell = "val option"

text \<open>
  A row is a dictionary from column name to value, as built by
  \<^verbatim>\<open>dict(zip(keys, row))\<close>; a column that is unbound or NULL is \<open>None\<close>.
  The storage is the one the specification describes: a table keyed by the values of its
  primary-key columns, holding at most one row per key. The engine's column types, implicit
  casts and NOT NULL checks are not part of the model: values are stored as they are bound.
\<close>

type_synonym row = "string \<rightharpoonup> val"

type_synonym table = "cell list \<rightharpoonup> row"

record database =
  primary_key :: "string \<Rightarrow> string list"
  tables :: "string \<Rightarrow> table"

text \<open>The \<^verbatim>\<open>table\<close> argument that pandas hands to a write method.\<close>

record sqltable =
  schema :: "string option"
  name :: string

record dataframe =
  columns :: "string list"
  rows :: "cell list list"

section \<open>SQL statements and their execution\<close>

datatype sql_expr =
    VALUES string
  | COL string
  | LIT "64 word"
  | EQ sql_expr sql_expr
  | IF sql_expr sql_expr sql_expr

text \<open>
  \<open>INSERT_IGNORE t cols\<close> is
  \<^verbatim>\<open>INSERT IGNORE INTO t (cols) VALUES (:cols)\<close>, and
  \<open>INSERT_UPDATE t cols assigns\<close> is
  \<^verbatim>\<open>INSERT INTO t (cols) VALUES (:cols) ON DUPLICATE KEY UPDATE assigns\<close>.
  Each placeholder \<^verbatim>\<open>:k\<close> is bound to the entry \<open>k\<close> of the parameter dictionary.
\<close>

datatype sql_stmt =
    INSERT_IGNORE string "string list"
  | INSERT_UPDATE string "string list" "(string \<times> sql_expr) list"

fun stmt_table :: "sql_stmt \<Rightarrow> string" where
  "stmt_table (INSERT_IGNORE t cols) = t"
| "stmt_table (INSERT_UPDATE t cols assigns) = t"

definition truthy :: "cell \<Rightarrow> bool" where
  "truthy c = (case c of Some (IntV i) \<Rightarrow> i \<noteq> 0 | _ \<Rightarrow> False)"

text \<open>
  \<open>eval new cur e\<close>: the value of \<open>e\<close> in an ON DUPLICATE KEY UPDATE clause, where
  \<open>new\<close> is the row that would have been inserted and \<open>cur\<close> the stored row as updated
  so far. A comparison with NULL is NULL, and NULL is not true.
\<close>

fun eval :: "row \<Rightarrow> row \<Rightarrow> sql_expr \<Rightarrow> cell" where
  "eval new cur (VALUES c) = new c"
| "eval new cur (COL c) = cur c"
| "eval new cur (LIT i) = Some (IntV i)"
| "eval new cur (EQ a b) =
     (case eval new cur a of
        None \<Rightarrow> None
      | Some x \<Rightarrow> (case eval new cur b of
                    None \<Rightarrow> None
                  | Some y \<Rightarrow> Some (IntV (if x = y then 1 else 0))))"
| "eval new cur (IF c a b) =
     (if truthy (eval new cur c) then eval new cur a else eval new cur b)"

definition inserted :: "string list \<Rightarrow> row \<Rightarrow> row" where
  "inserted cols d = (\<lambda>c. if c \<in> set cols then d c else None)"

definition key_of :: "string list \<Rightarrow> row \<Rightarrow> cell list" where
  "key_of pk r = map r pk"

text \<open>The assignments of the update clause run left to right on the stored row.\<close>

definition assign :: "row \<Rightarrow> string \<times> sql_expr \<Rightarrow> row \<Rightarrow> row" where
  "assign new a cur = cur(fst a := eval new cur (snd a))"

definition on_duplicate :: "row \<Rightarrow> (string \<times> sql_expr) list \<Rightarrow> row \<Rightarrow> row" where
  "on_duplicate new assigns e = fold (assign new) assigns e"

fun exec_row :: "string list \<Rightarrow> sql_stmt \<Rightarrow> row \<Rightarrow> table \<Rightarrow> table" where
  "exec_row pk (INSERT_IGNORE t cols) d tbl =
     (let new = inserted cols d; K = key_of pk new
      in case tbl K of None \<Rightarrow> tbl(K \<mapsto> new) | Some e \<Rightarrow> tbl)"
| "exec_row pk (INSERT_UPDATE t cols assigns) d tbl =
     (let new = inserted cols d; K = key_of pk new
      in case tbl K of
           None \<Rightarrow> tbl(K \<mapsto> new)
         | Some e \<Rightarrow> tbl(K \<mapsto> on_duplicate new assigns e))"

text \<open>
  \<^verbatim>\<open>conn.execute(stmt, list_of_dicts)\<close>: the statement runs once per parameter
  dictionary, in order, against the table it names.
\<close>

definition execute :: "sql_stmt \<Rightarrow> row list \<Rightarrow> database \<Rightarrow> database" where
  "execute stmt params conn =
     (let t = stmt_table stmt
      in conn\<lparr>tables := (tables conn)
           (t := fold (exec_row (primary_key conn t) stmt) params (tables conn t))\<rparr>)"

section \<open>The write methods\<close>

definition full_table_name :: "sqltable \<Rightarrow> string" where
  "full_table_name table =
     (case schema table of
        None \<Rightarrow> name table
      | Some s \<Rightarrow> if s = [] then name table else s @ ''.'' @ name table)"

text \<open>
  Both write methods build one statement from the column names and execute it with one
  parameter dictionary per row. The row count they return is used by no caller and is
  left out.

  \<^verbatim>\<open>dict(zip(keys, row))\<close>: a later pair with the same key replaces an earlier one.
\<close>

definition dict_zip :: "string list \<Rightarrow> cell list \<Rightarrow> row" where
  "dict_zip keys r = fold (\<lambda>kc d. d(fst kc := snd kc)) (zip keys r) (\<lambda>k. None)"

definition mysql_insert_ignore ::
  "sqltable \<Rightarrow> database \<Rightarrow> string list \<Rightarrow> cell list list \<Rightarrow> database" where
  "mysql_insert_ignore table conn keys data_iter =
     (let insert_stmt = INSERT_IGNORE (full_table_name table) keys;
          data_to_insert = map (dict_zip keys) data_iter
      in execute insert_stmt data_to_insert conn)"

definition update_cols :: "string list \<Rightarrow> (string \<times> sql_expr) list" where
  "update_cols keys =
     (let has_update_flag = (''update_flag'' \<in> set keys)
      in map (\<lambda>k. if has_update_flag
                  then (k, IF (EQ (VALUES ''update_flag'') (LIT 1)) (VALUES k) (COL k))
                  else (k, VALUES k)) keys)"

definition mysql_insert_update ::
  "sqltable \<Rightarrow> database \<Rightarrow> string list \<Rightarrow> cell list list \<Rightarrow> database" where
  "mysql_insert_update table conn keys data_iter =
     (let insert_stmt = INSERT_UPDATE (full_table_name table) keys (update_cols keys);
          data_to_insert = map (dict_zip keys) data_iter
      in execute insert_stmt data_to_insert conn)"

section \<open>Writing a DataFrame\<close>

datatype exn = KeyError string | ValueError | FetchError | DatabaseError

text \<open>\<^verbatim>\<open>df.empty\<close>: an axis of the frame has length zero.\<close>

definition df_empty :: "dataframe \<Rightarrow> bool" where
  "df_empty df = (columns df = [] \<or> rows df = [])"

function chunked :: "nat \<Rightarrow> 'a list \<Rightarrow> 'a list list" where
  "chunked n xs = (if n = 0 \<or> xs = [] then [] else take n xs # chunked n (drop n xs))"
  by pat_completeness auto
termination
  by (relation "measure (\<lambda>(n, xs). length xs)") auto

declare chunked.simps [simp del]

text \<open>
  \<^verbatim>\<open>df.to_sql(name, engine, if_exists='append', index=False, chunksize=n, method=m)\<close>
  as pandas documents it: a frame without rows writes nothing; a chunk size of zero is a
  ValueError; otherwise the rows are cut into consecutive chunks of at most \<open>n\<close> rows and
  the method is called once per chunk, in order, with the frame's column names as keys.
\<close>

definition to_sql ::
  "dataframe \<Rightarrow> string \<Rightarrow> database \<Rightarrow> nat \<Rightarrow>
   (sqltable \<Rightarrow> database \<Rightarrow> string list \<Rightarrow> cell list list \<Rightarrow> database) \<Rightarrow> exn + database" where
  "to_sql df table_name engine chunksize method =
     (if rows df = [] then Inr engine
      else if chunksize = 0 then Inl ValueError
      else Inr (fold (\<lambda>chunk conn. method \<lparr>schema = None, name = table_name\<rparr> conn (columns df) chunk)
                  (chunked chunksize (rows df)) engine))"

section \<open>The fetcher\<close>

text \<open>
  What the run meets outside the program: whether configuration, the API client and the
  database connection come up (\<open>init_ok\<close>); the \<^verbatim>\<open>stock_code\<close> column read from
  the banks table, or \<open>None\<close> when the read raises (\<open>read_banks\<close>); the frame returned
  by the Tushare call \<^verbatim>\<open>getattr(pro, api_name)(ts_code=ts_code, limit=0)\<close>, or
  \<open>None\<close> when it raises (\<open>ts_func\<close>); Python's \<^verbatim>\<open>int()\<close> on the text of an
  object, \<open>None\<close> when it raises (\<open>py_int\<close>); the int64 that the platform's cast
  gives for a finite float outside the int64 range, \<open>None\<close> when it raises
  (\<open>float_overflow\<close>); and whether the database rejects the write of a frame into a
  table, given the table's name, the database as it stands and the frame
  (\<open>storage_fault\<close>).
\<close>

record env =
  init_ok :: bool
  read_banks :: "string list option"
  ts_func :: "string \<Rightarrow> string \<Rightarrow> dataframe option"
  py_int :: "string \<Rightarrow> int option"
  float_overflow :: "rat \<Rightarrow> 64 word option"
  storage_fault :: "string \<Rightarrow> database \<Rightarrow> dataframe \<Rightarrow> bool"

text \<open>
  The observable steps of a run: an external fetch for a cell, a completed write
  (table, number of rows), a failure caught inside a cell, and a pause in milliseconds.
\<close>

datatype event =
    Fetch string string
  | Stored string nat
  | Failed string string
  | Sleep nat

record world =
  engine :: database
  events :: "event list"

definition TABLE_MAPPING :: "(string \<times> string) list" where
  "TABLE_MAPPING =
     [(''income'', ''t_income''),
      (''balancesheet'', ''t_balancesheet''),
      (''fina_indicator'', ''t_fina_indicator''),
      (''dividend'', ''t_dividend'')]"

definition TS_API_LIST :: "string list" where
  "TS_API_LIST = map fst TABLE_MAPPING"

text \<open>\<^verbatim>\<open>time.sleep(0.1)\<close>, in milliseconds.\<close>

definition pause_ms :: nat where
  "pause_ms = 100"

definition get_bank_codes :: "env \<Rightarrow> string list" where
  "get_bank_codes env =
     (case read_banks env of
        None \<Rightarrow> []
      | Some ts_codes \<Rightarrow> if ts_codes = [] then [] else ts_codes)"

text \<open>
  \<^verbatim>\<open>astype(int)\<close> is a cast to int64. An int64 cell is kept; a uint64 cell keeps its
  bits, so that \<open>2^63\<close> becomes \<open>- 2^63\<close>; a Python integer or the integer read from
  a text must fit int64, or the cast raises; a finite float is truncated towards zero; an
  infinite float raises. \<open>None\<close> is a cast that raises.
\<close>

definition fits_int64 :: "int \<Rightarrow> bool" where
  "fits_int64 i = (- (2 ^ 63) \<le> i \<and> i < 2 ^ 63)"

definition trunc :: "rat \<Rightarrow> int" where
  "trunc x = (if 0 \<le> x then \<lfloor>x\<rfloor> else \<lceil>x\<rceil>)"

definition astype_int :: "env \<Rightarrow> val \<Rightarrow> 64 word option" where
  "astype_int env v =
     (case v of
        IntV w \<Rightarrow> Some w
      | UIntV w \<Rightarrow> Some w
      | PyIntV i \<Rightarrow> if fits_int64 i then Some (word_of_int i) else None
      | FloatV x \<Rightarrow>
          if fits_int64 (trunc x) then Some (word_of_int (trunc x)) else float_overflow env x
      | InfV b \<Rightarrow> None
      | StrV s \<Rightarrow>
          (case py_int env s of
             None \<Rightarrow> None
           | Some i \<Rightarrow> if fits_int64 i then Some (word_of_int i) else None))"

text \<open>
  \<^verbatim>\<open>fillna(0).astype(int)\<close> on one cell: a missing cell is filled with 0, which the
  cast keeps; \<open>None\<close> when the cast raises.
\<close>

definition cast_cell :: "env \<Rightarrow> cell \<Rightarrow> val option" where
  "cast_cell env c =
     (case c of
        None \<Rightarrow> Some (IntV 0)
      | Some v \<Rightarrow> map_option IntV (astype_int env v))"

fun cast_row :: "env \<Rightarrow> string list \<Rightarrow> cell list \<Rightarrow> cell list option" where
  "cast_row env (c # cs) (v # vs) =
     (if c = ''update_flag''
      then (case cast_cell env v of
              None \<Rightarrow> None
            | Some v' \<Rightarrow> map_option ((#) (Some v')) (cast_row env cs vs))
      else map_option ((#) v) (cast_row env cs vs))"
| "cast_row env cs vs = Some vs"

fun cast_rows :: "env \<Rightarrow> string list \<Rightarrow> cell list list \<Rightarrow> cell list list option" where
  "cast_rows env cs [] = Some []"
| "cast_rows env cs (r # rs) =
     (case cast_row env cs r of
        None \<Rightarrow> None
      | Some r' \<Rightarrow> map_option ((#) r') (cast_rows env cs rs))"

text \<open>
  \<^verbatim>\<open>if 'update_flag' in df.columns: df['update_flag'] = df['update_flag'].fillna(0).astype(int)\<close>
\<close>

definition normalize_update_flag :: "env \<Rightarrow> dataframe \<Rightarrow> dataframe option" where
  "normalize_update_flag env df =
     (if ''update_flag'' \<in> set (columns df)
      then map_option (\<lambda>rs. df\<lparr>rows := rs\<rparr>) (cast_rows env (columns df) (rows df))
      else Some df)"

text \<open>
  The body of the \<^verbatim>\<open>try\<close> block: \<open>Inl\<close> is an exception raised inside it,
  \<open>Inr None\<close> the early return on an empty frame, \<open>Inr (Some (db, n))\<close> a write of
  \<open>n\<close> rows that leaves the database as \<open>db\<close>. A write that the database rejects
  raises and leaves the tables as they were.
\<close>

definition try_block ::
  "env \<Rightarrow> database \<Rightarrow> string \<Rightarrow> string \<Rightarrow> string \<Rightarrow>
   (sqltable \<Rightarrow> database \<Rightarrow> string list \<Rightarrow> cell list list \<Rightarrow> database) \<Rightarrow>
   exn + (database \<times> nat) option" where
  "try_block env db ts_code api_name table_name write_method =
     (case ts_func env api_name ts_code of
        None \<Rightarrow> Inl FetchError
      | Some df \<Rightarrow>
          if df_empty df then Inr None
          else (case normalize_update_flag env df of
                  None \<Rightarrow> Inl ValueError
                | Some df' \<Rightarrow>
                    if storage_fault env table_name db df' then Inl DatabaseError
                    else (case to_sql df' table_name db 5000 write_method of
                            Inl e \<Rightarrow> Inl e
                          | Inr db' \<Rightarrow> Inr (Some (db', length (rows df'))))))"

definition fetch_and_save_data :: "env \<Rightarrow> world \<Rightarrow> string \<Rightarrow> string \<Rightarrow> exn + world" where
  "fetch_and_save_data env w ts_code api_name =
     (case map_of TABLE_MAPPING api_name of
        None \<Rightarrow> Inl (KeyError api_name)
      | Some table_name \<Rightarrow>
          let write_method =
                (if api_name = ''dividend'' then mysql_insert_ignore else mysql_insert_update);
              w1 = w\<lparr>events := events w @ [Fetch ts_code api_name]\<rparr>;
              w2 = (case try_block env (engine w) ts_code api_name table_name write_method of
                      Inl e \<Rightarrow> w1\<lparr>events := events w1 @ [Failed ts_code api_name]\<rparr>
                    | Inr None \<Rightarrow> w1
                    | Inr (Some (db', n)) \<Rightarrow>
                        w1\<lparr>engine := db', events := events w1 @ [Stored table_name n]\<rparr>)
          in Inr (w2\<lparr>events := events w2 @ [Sleep pause_ms]\<rparr>))"

text \<open>The inner loop over \<^verbatim>\<open>TS_API_LIST\<close> and the outer loop over the bank codes.\<close>

fun for_api_names :: "env \<Rightarrow> string \<Rightarrow> string list \<Rightarrow> world \<Rightarrow> exn + world" where
  "for_api_names env ts_code [] w = Inr w"
| "for_api_names env ts_code (api_name # rest) w =
     (case fetch_and_save_data env w ts_code api_name of
        Inl e \<Rightarrow> Inl e
      | Inr w' \<Rightarrow> for_api_names env ts_code rest w')"

fun for_bank_codes :: "env \<Rightarrow> string list \<Rightarrow> world \<Rightarrow> exn + world" where
  "for_bank_codes env [] w = Inr w"
| "for_bank_codes env (ts_code # rest) w =
     (case for_api_names env ts_code TS_API_LIST w of
        Inl e \<Rightarrow> Inl e
      | Inr w' \<Rightarrow> for_bank_codes env rest w')"

text \<open>
  How the process ends: \<open>Exit n w\<close> is \<^verbatim>\<open>sys.exit(n)\<close>, or the normal end of the
  script with \<open>n = 0\<close>; \<open>Uncaught e\<close> is an exception that no handler caught, which
  ends a Python process with status 1.
\<close>

datatype outcome = Exit int world | Uncaught exn

fun exit_code :: "outcome \<Rightarrow> int" where
  "exit_code (Exit n w) = n"
| "exit_code (Uncaught e) = 1"

definition run_fetcher :: "env \<Rightarrow> world \<Rightarrow> outcome" where
  "run_fetcher env w =
     (if \<not> init_ok env then Exit 1 w
      else let bank_codes = get_bank_codes env
           in if bank_codes = [] then Exit 0 w
              else (case for_bank_codes env bank_codes w of
                      Inl e \<Rightarrow> Uncaught e
                    | Inr w' \<Rightarrow> Exit 0 w'))"

text \<open>
  \<open>pace owed es\<close> replays a trace: \<open>owed\<close> says whether a fetch has been issued
  since the last pause of at least \<open>pause_ms\<close>. The result is \<open>None\<close> when some fetch
  is issued while the pause for the previous one is still owed, and otherwise
  \<open>Some owed'\<close> with the flag at the end of the trace.
\<close>

fun pace :: "bool \<Rightarrow> event list \<Rightarrow> bool option" where
  "pace owed [] = Some owed"
| "pace owed (Fetch c a # es) = (if owed then None else pace True es)"
| "pace owed (Sleep d # es) = pace (owed \<and> d < pause_ms) es"
| "pace owed (e # es) = pace owed es"

fun fetches :: "event list \<Rightarrow> (string \<times> string) list" where
  "fetches [] = []"
| "fetches (Fetch c a # es) = (c, a) # fetches es"
| "fetches (e # es) = fetches es"

section \<open>Example inputs\<close>

text \<open>
  One bank and one reporting period. \<open>ex_keys\<close> are the columns of a statement frame
  (with the revision marker), \<open>plain_keys\<close> those of a frame without it; the tables are
  keyed by \<^verbatim>\<open>(ts_code, end_date)\<close>.
\<close>

definition ex_keys :: "string list" where
  "ex_keys = [''ts_code'', ''end_date'', ''A'', ''update_flag'']"

definition ex_key :: "cell list" where
  "ex_key = [Some (StrV ''601398.SH''), Some (StrV ''20231231'')]"

definition ex_row :: "64 word \<Rightarrow> cell \<Rightarrow> cell list" where
  "ex_row a m = [Some (StrV ''601398.SH''), Some (StrV ''20231231''), Some (IntV a), m]"

definition ex_db :: "string \<Rightarrow> row \<Rightarrow> database" where
  "ex_db t e =
     \<lparr>primary_key = (\<lambda>t. [''ts_code'', ''end_date'']),
      tables = (\<lambda>t'. if t' = t then [ex_key \<mapsto> e] else Map.empty)\<rparr>"

definition plain_keys :: "string list" where
  "plain_keys = [''ts_code'', ''end_date'', ''A'']"

definition plain_row :: "64 word \<Rightarrow> cell list" where
  "plain_row a = [Some (StrV ''601398.SH''), Some (StrV ''20231231''), Some (IntV a)]"

definition ex_table_of :: "string \<Rightarrow> sqltable" where
  "ex_table_of t = \<lparr>schema = None, name = t\<rparr>"

text \<open>
  A run whose configuration and connection come up and whose read of the banks table
  raises, and an initial world with empty tables and an empty trace.
\<close>

definition lost_registry_env :: env where
  "lost_registry_env =
     \<lparr>init_ok = True, read_banks = None, ts_func = (\<lambda>api_name ts_code. None),
      py_int = (\<lambda>s. None), float_overflow = (\<lambda>x. None),
      storage_fault = (\<lambda>table_name db df. False)\<rparr>"

definition ex_world :: world where
  "ex_world =
     \<lparr>engine = \<lparr>primary_key = (\<lambda>t. [''ts_code'', ''end_date'']), tables = (\<lambda>t. Map.empty)\<rparr>,
      events = []\<rparr>"

text \<open>
  Two banks: every fetch for the first one raises, and the second one has no data.
\<close>

definition flaky_env :: env where
  "flaky_env =
     \<lparr>init_ok = True, read_banks = Some [''601398.SH'', ''600036.SH''],
      ts_func = (\<lambda>api_name ts_code.
         if ts_code = ''601398.SH'' then None else Some \<lparr>columns = [], rows = []\<rparr>),
      py_int = (\<lambda>s. None), float_overflow = (\<lambda>x. None),
      storage_fault = (\<lambda>table_name db df. False)\<rparr>"

text \<open>A statement frame of one row whose marker is missing, and the same frame with marker 0.\<close>

definition nan_df :: dataframe where
  "nan_df = \<lparr>columns = ex_keys, rows = [ex_row 99 None]\<rparr>"

definition zero_df :: dataframe where
  "zero_df = \<lparr>columns = ex_keys, rows = [ex_row 99 (Some (IntV 0))]\<rparr>"

text \<open>
  A dividend frame of two rows, the second of which has no \<^verbatim>\<open>ts_code\<close>, served
  by an environment whose database does not reject the write.
\<close>

definition keyless_row :: "cell list" where
  "keyless_row = [None, Some (StrV ''20221231''), Some (IntV 7)]"

definition keyless_df :: dataframe where
  "keyless_df = \<lparr>columns = plain_keys, rows = [plain_row 10, keyless_row]\<rparr>"

definition keyless_env :: env where
  "keyless_env =
     \<lparr>init_ok = True, read_banks = Some [''601398.SH''],
      ts_func = (\<lambda>api_name ts_code. Some keyless_df),
      py_int = (\<lambda>s. None), float_overflow = (\<lambda>x. None),
      storage_fault = (\<lambda>table_name db df. False)\<rparr>"

text \<open>
  The same environment with a database that rejects a frame as soon as one of its rows
  has no value in a primary-key column of the table.
\<close>

definition strict_env :: env where
  "strict_env =
     keyless_env\<lparr>storage_fault := (\<lambda>table_name db df.
        list_ex (\<lambda>r. None \<in> set (key_of (primary_key db table_name) (dict_zip (columns df) r)))
          (rows df))\<rparr>"

section \<open>Bound parameters and the update clause\<close>

lemma fold_upd_outside:
  "k \<notin> set keys \<Longrightarrow> fold (\<lambda>kc d. d(fst kc := snd kc)) (zip keys r) acc k = acc k"
proof (induction keys arbitrary: r acc)
  case Nil
  show ?case by simp
next
  case (Cons a keys)
  then show ?case by (cases r) auto
qed

lemma dict_zip_outside: "k \<notin> set keys \<Longrightarrow> dict_zip keys r k = None"
  by (simp add: dict_zip_def fold_upd_outside)

lemma inserted_dict_zip: "inserted keys (dict_zip keys r) = dict_zip keys r"
  by (rule ext) (simp add: inserted_def dict_zip_outside)

lemma eval_guarded:
  "eval new cur (IF (EQ (VALUES f) (LIT 1)) (VALUES k) (COL k))
     = (if new f = Some (IntV 1) then new k else cur k)"
  by (auto simp: truthy_def split: option.splits val.splits)

lemma assign_flag:
  "assign new (k, IF (EQ (VALUES f) (LIT 1)) (VALUES k) (COL k)) e
     = (\<lambda>c. if c = k \<and> new f = Some (IntV 1) then new c else e c)"
  by (rule ext) (simp add: assign_def eval_guarded del: eval.simps)

lemma assign_plain:
  "assign new (k, VALUES k) e = (\<lambda>c. if c = k then new c else e c)"
  by (rule ext) (simp add: assign_def)

lemma fold_assign_flag:
  "fold (assign new) (map (\<lambda>k. (k, IF (EQ (VALUES f) (LIT 1)) (VALUES k) (COL k))) ks) e
     = (\<lambda>c. if c \<in> set ks \<and> new f = Some (IntV 1) then new c else e c)"
proof (induction ks arbitrary: e)
  case Nil
  show ?case by simp
next
  case (Cons k ks)
  have "fold (assign new)
          (map (\<lambda>k. (k, IF (EQ (VALUES f) (LIT 1)) (VALUES k) (COL k))) (k # ks)) e
        = fold (assign new)
          (map (\<lambda>k. (k, IF (EQ (VALUES f) (LIT 1)) (VALUES k) (COL k))) ks)
          (\<lambda>c. if c = k \<and> new f = Some (IntV 1) then new c else e c)"
    by (simp add: assign_flag)
  also have "\<dots> = (\<lambda>c. if c \<in> set (k # ks) \<and> new f = Some (IntV 1) then new c else e c)"
    unfolding Cons.IH by (rule ext) auto
  finally show ?case .
qed

lemma fold_assign_plain:
  "fold (assign new) (map (\<lambda>k. (k, VALUES k)) ks) e
     = (\<lambda>c. if c \<in> set ks then new c else e c)"
proof (induction ks arbitrary: e)
  case Nil
  show ?case by simp
next
  case (Cons k ks)
  have "fold (assign new) (map (\<lambda>k. (k, VALUES k)) (k # ks)) e
        = fold (assign new) (map (\<lambda>k. (k, VALUES k)) ks)
            (\<lambda>c. if c = k then new c else e c)"
    by (simp add: assign_plain)
  also have "\<dots> = (\<lambda>c. if c \<in> set (k # ks) then new c else e c)"
    unfolding Cons.IH by (rule ext) auto
  finally show ?case .
qed

lemma on_duplicate_flag:
  "''update_flag'' \<in> set keys \<Longrightarrow>
   on_duplicate new (update_cols keys) e
     = (\<lambda>c. if c \<in> set keys \<and> new ''update_flag'' = Some (IntV 1) then new c else e c)"
  by (simp add: on_duplicate_def update_cols_def fold_assign_flag)

lemma on_duplicate_plain:
  "''update_flag'' \<notin> set keys \<Longrightarrow>
   on_duplicate new (update_cols keys) e = (\<lambda>c. if c \<in> set keys then new c else e c)"
  by (simp add: on_duplicate_def update_cols_def fold_assign_plain)

lemma tables_execute:
  "tables (execute stmt params conn) t =
     (if t = stmt_table stmt
      then fold (exec_row (primary_key conn t) stmt) params (tables conn t)
      else tables conn t)"
  by (simp add: execute_def Let_def)

lemma primary_key_execute: "primary_key (execute stmt params conn) = primary_key conn"
  by (simp add: execute_def Let_def)

lemma execute_Nil: "execute stmt [] conn = conn"
  by (simp add: execute_def Let_def)

lemma execute_append:
  "execute stmt (ps @ qs) conn = execute stmt qs (execute stmt ps conn)"
  by (simp add: execute_def Let_def)

lemma execute_unchanged:
  "fold (exec_row (primary_key conn (stmt_table stmt)) stmt) params (tables conn (stmt_table stmt))
     = tables conn (stmt_table stmt) \<Longrightarrow> execute stmt params conn = conn"
  by (simp add: execute_def Let_def)

lemma insert_update_stale:
  assumes "''update_flag'' \<in> set keys"
    and "tables conn (full_table_name table)
           (key_of (primary_key conn (full_table_name table)) (dict_zip keys r)) = Some e"
    and "dict_zip keys r ''update_flag'' \<noteq> Some (IntV 1)"
  shows "mysql_insert_update table conn keys [r] = conn"
proof -
  let ?t = "full_table_name table"
  have "exec_row (primary_key conn ?t) (INSERT_UPDATE ?t keys (update_cols keys))
          (dict_zip keys r) (tables conn ?t) = tables conn ?t"
    using assms by (simp add: Let_def inserted_dict_zip on_duplicate_flag fun_upd_idem)
  then show ?thesis
    unfolding mysql_insert_update_def Let_def by (intro execute_unchanged) simp
qed

lemma insert_update_fresh:
  assumes "tables conn (full_table_name table)
           (key_of (primary_key conn (full_table_name table)) (dict_zip keys r)) = None"
  shows "tables (mysql_insert_update table conn keys [r]) (full_table_name table)
           = (tables conn (full_table_name table))
               (key_of (primary_key conn (full_table_name table)) (dict_zip keys r) \<mapsto>
                  dict_zip keys r)"
  using assms
  by (simp add: mysql_insert_update_def Let_def tables_execute inserted_dict_zip)

section \<open>Insert-ignore keeps what is stored\<close>

lemma ignore_keeps:
  "tbl K = Some e \<Longrightarrow> fold (exec_row pk (INSERT_IGNORE t cols)) ds tbl K = Some e"
proof (induction ds arbitrary: tbl)
  case Nil
  then show ?case by simp
next
  case (Cons d ds)
  have "exec_row pk (INSERT_IGNORE t cols) d tbl K = Some e"
    using Cons.prems by (auto simp: Let_def split: option.splits)
  then show ?case by (simp add: Cons.IH del: exec_row.simps)
qed

lemma ignore_present:
  "\<forall>d \<in> set ds. key_of pk (inserted cols d) \<in> dom tbl \<Longrightarrow>
   fold (exec_row pk (INSERT_IGNORE t cols)) ds tbl = tbl"
  by (induction ds) (auto simp: Let_def split: option.splits)

lemma ignore_dom_mono:
  "K \<in> dom tbl \<Longrightarrow> K \<in> dom (fold (exec_row pk (INSERT_IGNORE t cols)) ds tbl)"
  using ignore_keeps [of tbl K _ pk t cols ds] by (auto simp: dom_def)

lemma ignore_covers:
  "d \<in> set ds \<Longrightarrow>
   key_of pk (inserted cols d) \<in> dom (fold (exec_row pk (INSERT_IGNORE t cols)) ds tbl)"
proof (induction ds arbitrary: tbl)
  case Nil
  then show ?case by simp
next
  case (Cons a ds)
  show ?case
  proof (cases "d = a")
    case True
    have "key_of pk (inserted cols d) \<in> dom (exec_row pk (INSERT_IGNORE t cols) a tbl)"
      using True by (auto simp: Let_def split: option.splits)
    then show ?thesis by (simp add: ignore_dom_mono del: exec_row.simps)
  next
    case False
    with Cons.prems have "d \<in> set ds" by simp
    then show ?thesis by (simp add: Cons.IH del: exec_row.simps)
  qed
qed

lemma ignore_twice:
  "fold (exec_row pk (INSERT_IGNORE t cols)) ds (fold (exec_row pk (INSERT_IGNORE t cols)) ds tbl)
     = fold (exec_row pk (INSERT_IGNORE t cols)) ds tbl"
  by (rule ignore_present) (simp add: ignore_covers)

lemma mysql_insert_ignore_twice:
  "mysql_insert_ignore table (mysql_insert_ignore table conn keys data_iter) keys data_iter
     = mysql_insert_ignore table conn keys data_iter"
  by (simp add: mysql_insert_ignore_def execute_def Let_def ignore_twice)

section \<open>Batches and chunks\<close>

lemma fold_chunked:
  assumes nil: "\<And>c. m c [] = c"
    and app: "\<And>c xs ys. m c (xs @ ys) = m (m c xs) ys"
  shows "0 < n \<Longrightarrow> fold (\<lambda>chunk c. m c chunk) (chunked n xs) c = m c xs"
proof (induction n xs arbitrary: c rule: chunked.induct)
  case (1 n xs)
  show ?case
  proof (cases "xs = []")
    case True
    then show ?thesis by (simp add: chunked.simps [of n "[]"] nil)
  next
    case False
    with "1.prems" have "fold (\<lambda>chunk c. m c chunk) (chunked n xs) c
        = fold (\<lambda>chunk c. m c chunk) (chunked n (drop n xs)) (m c (take n xs))"
      by (simp add: chunked.simps [of n xs])
    also have "\<dots> = m (m c (take n xs)) (drop n xs)"
      using False "1.prems" by (intro "1.IH") auto
    also have "\<dots> = m c (take n xs @ drop n xs)"
      by (simp only: app)
    finally show ?thesis by simp
  qed
qed

lemma mysql_insert_ignore_Nil: "mysql_insert_ignore table conn keys [] = conn"
  by (simp add: mysql_insert_ignore_def Let_def execute_Nil)

lemma mysql_insert_update_Nil: "mysql_insert_update table conn keys [] = conn"
  by (simp add: mysql_insert_update_def Let_def execute_Nil)

lemma mysql_insert_ignore_append:
  "mysql_insert_ignore table conn keys (xs @ ys)
     = mysql_insert_ignore table (mysql_insert_ignore table conn keys xs) keys ys"
  by (simp add: mysql_insert_ignore_def Let_def execute_append)

lemma mysql_insert_update_append:
  "mysql_insert_update table conn keys (xs @ ys)
     = mysql_insert_update table (mysql_insert_update table conn keys xs) keys ys"
  by (simp add: mysql_insert_update_def Let_def execute_append)

lemma try_block_writes_normalized:
  assumes "ts_func env api_name ts_code = Some df" "\<not> df_empty df"
    and "normalize_update_flag env df = Some df'"
    and "\<not> storage_fault env table_name db df'"
    and "write_method = mysql_insert_ignore \<or> write_method = mysql_insert_update"
  shows "try_block env db ts_code api_name table_name write_method
     = Inr (Some (write_method \<lparr>schema = None, name = table_name\<rparr> db (columns df') (rows df'),
                  length (rows df')))"
proof -
  let ?t = "\<lparr>schema = None, name = table_name\<rparr>"
  have a: "fold (\<lambda>chunk conn. mysql_insert_ignore ?t conn (columns df') chunk)
             (chunked 5000 (rows df')) db
           = mysql_insert_ignore ?t db (columns df') (rows df')"
    by (rule fold_chunked [where m = "\<lambda>c xs. mysql_insert_ignore ?t c (columns df') xs"])
       (simp_all add: mysql_insert_ignore_Nil mysql_insert_ignore_append)
  have b: "fold (\<lambda>chunk conn. mysql_insert_update ?t conn (columns df') chunk)
             (chunked 5000 (rows df')) db
           = mysql_insert_update ?t db (columns df') (rows df')"
    by (rule fold_chunked [where m = "\<lambda>c xs. mysql_insert_update ?t c (columns df') xs"])
       (simp_all add: mysql_insert_update_Nil mysql_insert_update_append)
  have "to_sql df' table_name db 5000 write_method
      = Inr (write_method ?t db (columns df') (rows df'))"
    using assms(5) a b
    by (auto simp: to_sql_def mysql_insert_ignore_Nil mysql_insert_update_Nil)
  with assms(1-4) show ?thesis
    by (simp add: try_block_def)
qed

lemma try_block_outcome:
  assumes "ts_func env api_name ts_code = Some df" "\<not> df_empty df"
    and "normalize_update_flag env df = Some df'"
    and "write_method = mysql_insert_ignore \<or> write_method = mysql_insert_update"
  shows "try_block env db ts_code api_name table_name write_method
     = (if storage_fault env table_name db df' then Inl DatabaseError
        else Inr (Some (write_method \<lparr>schema = None, name = table_name\<rparr> db
                          (columns df') (rows df'), length (rows df'))))"
proof (cases "storage_fault env table_name db df'")
  case True
  with assms(1-3) show ?thesis by (simp add: try_block_def)
next
  case False
  with try_block_writes_normalized [OF assms(1-3) False assms(4)] show ?thesis by simp
qed

section \<open>The marker cast\<close>

lemma cast_cell_None: "cast_cell env None = Some (IntV 0)"
  by (simp add: cast_cell_def)

text \<open>The cast on cells of each kind.\<close>

lemma cast_uint64_keeps_bits:
  "cast_cell env (Some (UIntV (2 ^ 63))) = Some (IntV (2 ^ 63))"
  by (simp add: cast_cell_def astype_int_def)

lemma sint_top_bit: "sint (2 ^ 63 :: 64 word) = - (2 ^ 63)"
  by code_simp

lemma cast_python_int_too_large: "cast_cell env (Some (PyIntV (2 ^ 64))) = None"
  by (simp add: cast_cell_def astype_int_def fits_int64_def)

lemma cast_python_int_2_63: "cast_cell env (Some (PyIntV (2 ^ 63))) = None"
  by (simp add: cast_cell_def astype_int_def fits_int64_def)

lemma trunc_examples: "trunc (17 / 10) = 1" "trunc (- (17 / 10)) = - 1"
proof -
  have "\<lfloor>17 / 10 :: rat\<rfloor> = 1"
    by (rule floor_unique) simp_all
  then show "trunc (17 / 10) = 1"
    by (simp add: trunc_def)
  have "\<lceil>- (17 / 10) :: rat\<rceil> = - 1"
    by (rule ceiling_unique) simp_all
  then show "trunc (- (17 / 10)) = - 1"
    by (simp add: trunc_def)
qed

lemma cast_float_truncates:
  "cast_cell env (Some (FloatV (17 / 10))) = Some (IntV 1)"
  "cast_cell env (Some (FloatV (- (17 / 10)))) = Some (IntV (- 1))"
  by (simp_all add: cast_cell_def astype_int_def fits_int64_def trunc_examples)

lemma cast_infinite_raises: "cast_cell env (Some (InfV b)) = None"
  by (simp add: cast_cell_def astype_int_def)

lemma cast_text: "cast_cell env (Some (StrV s)) =
   (case py_int env s of None \<Rightarrow> None
    | Some i \<Rightarrow> if fits_int64 i then Some (IntV (word_of_int i)) else None)"
  by (simp add: cast_cell_def astype_int_def split: option.splits)

lemma cast_row_marker:
  "cast_row env cs r = Some r' \<Longrightarrow> length r = length cs \<Longrightarrow> ''update_flag'' \<in> set cs \<Longrightarrow>
   fold (\<lambda>kc d. d(fst kc := snd kc)) (zip cs r) acc ''update_flag'' = None \<Longrightarrow>
   fold (\<lambda>kc d. d(fst kc := snd kc)) (zip cs r') acc' ''update_flag'' = Some (IntV 0)"
proof (induction env cs r arbitrary: r' acc acc' rule: cast_row.induct)
  case (1 env c cs v vs)
  show ?case
  proof (cases "c = ''update_flag''")
    case True
    with "1.prems"(1) obtain v' vs' where
      v': "cast_cell env v = Some v'" and vs': "cast_row env cs vs = Some vs'"
      and r': "r' = Some v' # vs'"
      by (auto split: option.splits)
    show ?thesis
    proof (cases "''update_flag'' \<in> set cs")
      case True
      have "fold (\<lambda>kc d. d(fst kc := snd kc)) (zip cs vs') (acc'(c := Some v')) ''update_flag''
          = Some (IntV 0)"
        using "1.IH"(1) [OF \<open>c = ''update_flag''\<close> v' vs' _ True, of "acc(c := v)"] "1.prems"
        by (simp del: fun_upd_apply)
      then show ?thesis by (simp add: r' del: fun_upd_apply)
    next
      case False
      with "1.prems"(4) \<open>c = ''update_flag''\<close> have "v = None"
        by (simp add: fold_upd_outside fun_upd_same del: fun_upd_apply)
      with v' have "v' = IntV 0" by (simp add: cast_cell_None)
      with False \<open>c = ''update_flag''\<close> show ?thesis
        by (simp add: r' fold_upd_outside fun_upd_same del: fun_upd_apply)
    qed
  next
    case False
    with "1.prems"(1) obtain vs' where
      vs': "cast_row env cs vs = Some vs'" and r': "r' = v # vs'"
      by (auto split: option.splits)
    from False "1.prems"(3) have mem: "''update_flag'' \<in> set cs" by auto
    have "fold (\<lambda>kc d. d(fst kc := snd kc)) (zip cs vs') (acc'(c := v)) ''update_flag''
        = Some (IntV 0)"
      using "1.IH"(2) [OF False vs' _ mem, of "acc(c := v)"] "1.prems"
      by (simp del: fun_upd_apply)
    then show ?thesis by (simp add: r' del: fun_upd_apply)
  qed
qed simp_all

lemma cast_row_others:
  "cast_row env cs r = Some r' \<Longrightarrow> k \<noteq> ''update_flag'' \<Longrightarrow> acc' k = acc k \<Longrightarrow>
   fold (\<lambda>kc d. d(fst kc := snd kc)) (zip cs r') acc' k
     = fold (\<lambda>kc d. d(fst kc := snd kc)) (zip cs r) acc k"
proof (induction env cs r arbitrary: r' acc acc' rule: cast_row.induct)
  case (1 env c cs v vs)
  show ?case
  proof (cases "c = ''update_flag''")
    case True
    with "1.prems"(1) obtain v' vs' where
      v': "cast_cell env v = Some v'" and vs': "cast_row env cs vs = Some vs'"
      and r': "r' = Some v' # vs'"
      by (auto split: option.splits)
    have "fold (\<lambda>kc d. d(fst kc := snd kc)) (zip cs vs') (acc'(c := Some v')) k
        = fold (\<lambda>kc d. d(fst kc := snd kc)) (zip cs vs) (acc(c := v)) k"
      using "1.prems"(2,3) True by (intro "1.IH"(1) [OF True v' vs']) auto
    then show ?thesis by (simp add: r' del: fun_upd_apply)
  next
    case False
    with "1.prems"(1) obtain vs' where
      vs': "cast_row env cs vs = Some vs'" and r': "r' = v # vs'"
      by (auto split: option.splits)
    have "fold (\<lambda>kc d. d(fst kc := snd kc)) (zip cs vs') (acc'(c := v)) k
        = fold (\<lambda>kc d. d(fst kc := snd kc)) (zip cs vs) (acc(c := v)) k"
      using "1.prems"(2,3) by (intro "1.IH"(2) [OF False vs']) auto
    then show ?thesis by (simp add: r' del: fun_upd_apply)
  qed
qed simp_all

lemma cast_rows_nth:
  "cast_rows env cs rs = Some rs' \<Longrightarrow>
   length rs' = length rs \<and> (\<forall>i < length rs. cast_row env cs (rs ! i) = Some (rs' ! i))"
proof (induction rs arbitrary: rs')
  case Nil
  then show ?case by simp
next
  case (Cons r rs)
  then obtain r' rest where
    "cast_row env cs r = Some r'" "cast_rows env cs rs = Some rest" "rs' = r' # rest"
    by (auto split: option.splits)
  with Cons.IH [of rest] show ?case
    by (auto simp: nth_Cons split: nat.splits)
qed

section \<open>Traces of a run\<close>

lemma fetches_append: "fetches (xs @ ys) = fetches xs @ fetches ys"
  by (induction xs rule: fetches.induct) auto

lemma pace_append:
  "pace owed (xs @ ys) = (case pace owed xs of None \<Rightarrow> None | Some owed' \<Rightarrow> pace owed' ys)"
  by (induction owed xs rule: pace.induct) auto

lemma cell_step:
  assumes "map_of TABLE_MAPPING api_name = Some table_name"
  shows "\<exists>w' es. fetch_and_save_data env w ts_code api_name = Inr w'
           \<and> events w' = events w @ es
           \<and> fetches es = [(ts_code, api_name)]
           \<and> pace False es = Some False"
  using assms
  by (auto simp: fetch_and_save_data_def Let_def pause_ms_def
      split: sum.splits option.splits prod.splits)

lemma api_known: "a \<in> set TS_API_LIST \<Longrightarrow> \<exists>t. map_of TABLE_MAPPING a = Some t"
  by (auto simp: TS_API_LIST_def TABLE_MAPPING_def)

lemma inner_loop:
  "set apis \<subseteq> set TS_API_LIST \<Longrightarrow>
   \<exists>w' es. for_api_names env ts_code apis w = Inr w'
     \<and> events w' = events w @ es
     \<and> fetches es = map (Pair ts_code) apis
     \<and> pace False es = Some False"
proof (induction apis arbitrary: w)
  case Nil
  show ?case by simp
next
  case (Cons a apis)
  from Cons.prems obtain t where "map_of TABLE_MAPPING a = Some t"
    using api_known by auto
  from cell_step [OF this] obtain w1 es1 where
    1: "fetch_and_save_data env w ts_code a = Inr w1" "events w1 = events w @ es1"
       "fetches es1 = [(ts_code, a)]" "pace False es1 = Some False"
    by blast
  from Cons.prems have "set apis \<subseteq> set TS_API_LIST" by simp
  from Cons.IH [OF this, of w1] obtain w2 es2 where
    2: "for_api_names env ts_code apis w1 = Inr w2" "events w2 = events w1 @ es2"
       "fetches es2 = map (Pair ts_code) apis" "pace False es2 = Some False"
    by blast
  have "for_api_names env ts_code (a # apis) w = Inr w2"
    using 1 2 by simp
  moreover have "events w2 = events w @ (es1 @ es2)"
    using 1 2 by simp
  moreover have "fetches (es1 @ es2) = map (Pair ts_code) (a # apis)"
    using 1 2 by (simp add: fetches_append)
  moreover have "pace False (es1 @ es2) = Some False"
    using 1 2 by (simp add: pace_append)
  ultimately show ?case by blast
qed

lemma outer_loop:
  "\<exists>w' es. for_bank_codes env codes w = Inr w'
     \<and> events w' = events w @ es
     \<and> fetches es = List.product codes TS_API_LIST
     \<and> pace False es = Some False"
proof (induction codes arbitrary: w)
  case Nil
  show ?case by simp
next
  case (Cons c codes)
  from inner_loop [of TS_API_LIST env c w] obtain w1 es1 where
    1: "for_api_names env c TS_API_LIST w = Inr w1" "events w1 = events w @ es1"
       "fetches es1 = map (Pair c) TS_API_LIST" "pace False es1 = Some False"
    by blast
  from Cons.IH [of w1] obtain w2 es2 where
    2: "for_bank_codes env codes w1 = Inr w2" "events w2 = events w1 @ es2"
       "fetches es2 = List.product codes TS_API_LIST" "pace False es2 = Some False"
    by blast
  have "for_bank_codes env (c # codes) w = Inr w2"
    using 1 2 by simp
  moreover have "events w2 = events w @ (es1 @ es2)"
    using 1 2 by simp
  moreover have "fetches (es1 @ es2) = List.product (c # codes) TS_API_LIST"
    using 1 2 by (simp add: fetches_append)
  moreover have "pace False (es1 @ es2) = Some False"
    using 1 2 by (simp add: pace_append)
  ultimately show ?case by blast
qed

lemma run_shape:
  "run_fetcher env w = Exit 1 w \<and> \<not> init_ok env
   \<or> (\<exists>w' es. run_fetcher env w = Exit 0 w' \<and> init_ok env
         \<and> events w' = events w @ es
         \<and> fetches es = List.product (get_bank_codes env) TS_API_LIST
         \<and> pace False es = Some False)"
proof (cases "init_ok env")
  case False
  then show ?thesis by (simp add: run_fetcher_def)
next
  case True
  show ?thesis
  proof (cases "get_bank_codes env = []")
    case True
    with \<open>init_ok env\<close> show ?thesis by (simp add: run_fetcher_def)
  next
    case False
    from outer_loop [of env "get_bank_codes env" w] obtain w' es where
      "for_bank_codes env (get_bank_codes env) w = Inr w'" "events w' = events w @ es"
      "fetches es = List.product (get_bank_codes env) TS_API_LIST" "pace False es = Some False"
      by blast
    with False \<open>init_ok env\<close> show ?thesis by (simp add: run_fetcher_def Let_def)
  qed
qed

section \<open>Facts about the example inputs\<close>

lemma ex_key_of:
  "key_of [''ts_code'', ''end_date''] (dict_zip ex_keys (ex_row a m)) = ex_key"
  by (simp add: key_of_def dict_zip_def ex_keys_def ex_row_def ex_key_def)

lemma ex_marker: "dict_zip ex_keys (ex_row a m) ''update_flag'' = m"
  by (simp add: dict_zip_def ex_keys_def ex_row_def)

lemma ex_A: "dict_zip ex_keys (ex_row a m) ''A'' = Some (IntV a)"
  by (simp add: dict_zip_def ex_keys_def ex_row_def)

lemma plain_key_of:
  "key_of [''ts_code'', ''end_date''] (dict_zip plain_keys (plain_row a)) = ex_key"
  by (simp add: key_of_def dict_zip_def plain_keys_def plain_row_def ex_key_def)

lemma plain_A: "dict_zip plain_keys (plain_row a) ''A'' = Some (IntV a)"
  by (simp add: dict_zip_def plain_keys_def plain_row_def)

lemma full_table_name_ex: "full_table_name (ex_table_of t) = t"
  by (simp add: full_table_name_def ex_table_of_def)

lemma primary_key_ex_db: "primary_key (ex_db t e) t' = [''ts_code'', ''end_date'']"
  by (simp add: ex_db_def)

lemma tables_ex_db: "tables (ex_db t e) t ex_key = Some e"
  by (simp add: ex_db_def)

lemma normalize_nan_df: "normalize_update_flag env nan_df = Some zero_df"
  by (simp add: normalize_update_flag_def nan_df_def zero_df_def ex_keys_def ex_row_def
      cast_cell_def)

lemma keyless_key_of:
  "key_of [''ts_code'', ''end_date''] (dict_zip plain_keys keyless_row)
     = [None, Some (StrV ''20221231'')]"
  by (simp add: key_of_def dict_zip_def plain_keys_def keyless_row_def)

lemma keyless_setup:
  "ts_func keyless_env api_name ts_code = Some keyless_df"
  "\<not> df_empty keyless_df"
  "normalize_update_flag keyless_env keyless_df = Some keyless_df"
  "\<not> storage_fault keyless_env table_name db df"
  by (simp_all add: keyless_env_def keyless_df_def df_empty_def normalize_update_flag_def
      plain_keys_def)

lemma keyless_stored:
  "tables (mysql_insert_ignore \<lparr>schema = None, name = ''t_dividend''\<rparr> (engine ex_world)
      plain_keys [plain_row 10, keyless_row]) ''t_dividend'' ex_key
     = Some (dict_zip plain_keys (plain_row 10))"
  by (simp add: mysql_insert_ignore_def Let_def tables_execute full_table_name_def
      inserted_dict_zip ex_world_def plain_key_of keyless_key_of ex_key_def)

section \<open>The claims\<close>

text \<open>
  C1. A batch written by \<open>mysql_insert_update\<close> whose keys contain
  \<^verbatim>\<open>update_flag\<close>: when the key of the incoming row is already stored, every column
  of the batch, the marker included, takes the incoming value if the incoming marker is 1
  (the test the statement makes) and keeps the stored value otherwise; columns outside the
  batch keep the stored value. With an incoming marker other than 1 the database is left
  exactly as it was.
\<close>

theorem update_flag_merge:
  assumes "''update_flag'' \<in> set keys"
    and "tables conn (full_table_name table)
           (key_of (primary_key conn (full_table_name table)) (dict_zip keys r)) = Some e"
  shows "tables (mysql_insert_update table conn keys [r]) (full_table_name table)
           = (tables conn (full_table_name table))
               (key_of (primary_key conn (full_table_name table)) (dict_zip keys r) \<mapsto>
                  (\<lambda>c. if c \<in> set keys \<and> dict_zip keys r ''update_flag'' = Some (IntV 1)
                       then dict_zip keys r c else e c))
         \<and> (dict_zip keys r ''update_flag'' \<noteq> Some (IntV 1) \<longrightarrow>
              mysql_insert_update table conn keys [r] = conn)"
proof -
  let ?t = "full_table_name table"
  let ?d = "dict_zip keys r"
  let ?K = "key_of (primary_key conn ?t) ?d"
  let ?stmt = "INSERT_UPDATE ?t keys (update_cols keys)"
  have step: "exec_row (primary_key conn ?t) ?stmt ?d (tables conn ?t)
      = (tables conn ?t)(?K \<mapsto>
          (\<lambda>c. if c \<in> set keys \<and> ?d ''update_flag'' = Some (IntV 1) then ?d c else e c))"
    using assms by (simp add: Let_def inserted_dict_zip on_duplicate_flag)
  have first: "tables (mysql_insert_update table conn keys [r]) ?t
      = (tables conn ?t)(?K \<mapsto>
          (\<lambda>c. if c \<in> set keys \<and> ?d ''update_flag'' = Some (IntV 1) then ?d c else e c))"
    unfolding mysql_insert_update_def Let_def tables_execute using step by simp
  have second: "mysql_insert_update table conn keys [r] = conn"
    if "?d ''update_flag'' \<noteq> Some (IntV 1)"
  proof -
    have "exec_row (primary_key conn ?t) ?stmt ?d (tables conn ?t) = tables conn ?t"
      unfolding step using that assms(2) by (simp add: fun_upd_idem)
    then show ?thesis
      unfolding mysql_insert_update_def Let_def by (intro execute_unchanged) simp
  qed
  from first second show ?thesis by blast
qed

theorem update_flag_merge_witness:
  "''update_flag'' \<in> set ex_keys
   \<and> tables (ex_db ''t_income'' (dict_zip ex_keys (ex_row 10 (Some (IntV 1)))))
         (full_table_name (ex_table_of ''t_income'')) ex_key
       = Some (dict_zip ex_keys (ex_row 10 (Some (IntV 1))))
   \<and> mysql_insert_update (ex_table_of ''t_income'')
         (ex_db ''t_income'' (dict_zip ex_keys (ex_row 10 (Some (IntV 1)))))
         ex_keys [ex_row 99 (Some (IntV 0))]
       = ex_db ''t_income'' (dict_zip ex_keys (ex_row 10 (Some (IntV 1))))
   \<and> (\<exists>e. tables (mysql_insert_update (ex_table_of ''t_income'')
              (ex_db ''t_income'' (dict_zip ex_keys (ex_row 10 (Some (IntV 1)))))
              ex_keys [ex_row 99 (Some (IntV 1))]) ''t_income'' ex_key = Some e
            \<and> e ''A'' = Some (IntV 99))"
proof -
  let ?old = "dict_zip ex_keys (ex_row 10 (Some (IntV 1)))"
  let ?db = "ex_db ''t_income'' ?old"
  have flag: "''update_flag'' \<in> set ex_keys"
    by (simp add: ex_keys_def)
  have tn: "full_table_name (ex_table_of ''t_income'') = ''t_income''"
    by (simp add: full_table_name_ex)
  have pk: "primary_key ?db ''t_income'' = [''ts_code'', ''end_date'']"
    by (simp add: ex_db_def)
  have stored: "tables ?db ''t_income'' ex_key = Some ?old"
    by (simp add: ex_db_def)
  have coll: "tables ?db (full_table_name (ex_table_of ''t_income''))
      (key_of (primary_key ?db (full_table_name (ex_table_of ''t_income''))) (dict_zip ex_keys (ex_row a m)))
      = Some ?old" for a m
    by (simp only: tn pk ex_key_of stored)
  from update_flag_merge [OF flag coll, of 99 "Some (IntV 0)"]
  have stale: "mysql_insert_update (ex_table_of ''t_income'') ?db ex_keys [ex_row 99 (Some (IntV 0))] = ?db"
    by (simp add: ex_marker)
  from update_flag_merge [OF flag coll, of 99 "Some (IntV 1)"]
  have "tables (mysql_insert_update (ex_table_of ''t_income'') ?db ex_keys [ex_row 99 (Some (IntV 1))])
          ''t_income'' ex_key
        = Some (\<lambda>c. if c \<in> set ex_keys then dict_zip ex_keys (ex_row 99 (Some (IntV 1))) c
                     else ?old c)"
    by (simp add: tn pk ex_key_of ex_marker)
  moreover have "''A'' \<in> set ex_keys"
    by (simp add: ex_keys_def)
  ultimately have fresh:
    "\<exists>e. tables (mysql_insert_update (ex_table_of ''t_income'') ?db ex_keys [ex_row 99 (Some (IntV 1))])
            ''t_income'' ex_key = Some e \<and> e ''A'' = Some (IntV 99)"
    by (simp add: ex_A)
  from flag stored stale fresh show ?thesis
    by (simp add: tn)
qed

text \<open>
  C2. Under \<open>mysql_insert_ignore\<close> a row that is stored stays as it is whatever batch
  is written, and a single incoming row whose key is already stored leaves the whole
  database unchanged.
\<close>

theorem discard_on_conflict:
  "(tables conn (full_table_name table) K = Some e \<longrightarrow>
      tables (mysql_insert_ignore table conn keys data_iter) (full_table_name table) K = Some e)
   \<and> (tables conn (full_table_name table)
         (key_of (primary_key conn (full_table_name table)) (dict_zip keys r)) = Some e \<longrightarrow>
      mysql_insert_ignore table conn keys [r] = conn)"
proof -
  have "mysql_insert_ignore table conn keys [r] = conn"
    if "tables conn (full_table_name table)
          (key_of (primary_key conn (full_table_name table)) (dict_zip keys r)) = Some e"
    unfolding mysql_insert_ignore_def Let_def
    using that by (intro execute_unchanged) (simp add: Let_def inserted_dict_zip)
  then show ?thesis
    by (simp add: mysql_insert_ignore_def Let_def tables_execute ignore_keeps)
qed

theorem discard_on_conflict_witness:
  "tables (ex_db ''t_dividend'' (dict_zip plain_keys (plain_row 10)))
       (full_table_name (ex_table_of ''t_dividend'')) ex_key
     = Some (dict_zip plain_keys (plain_row 10))
   \<and> mysql_insert_ignore (ex_table_of ''t_dividend'')
         (ex_db ''t_dividend'' (dict_zip plain_keys (plain_row 10))) plain_keys [plain_row 99]
       = ex_db ''t_dividend'' (dict_zip plain_keys (plain_row 10))
   \<and> tables (mysql_insert_ignore (ex_table_of ''t_dividend'')
         (ex_db ''t_dividend'' (dict_zip plain_keys (plain_row 10))) plain_keys
         [plain_row 99, plain_row 7]) ''t_dividend'' ex_key
       = Some (dict_zip plain_keys (plain_row 10))"
proof -
  let ?p1 = "dict_zip plain_keys (plain_row 10)"
  let ?db = "ex_db ''t_dividend'' ?p1"
  let ?t = "ex_table_of ''t_dividend''"
  have stored: "tables ?db (full_table_name ?t) ex_key = Some ?p1"
    by (simp add: full_table_name_ex tables_ex_db)
  have coll: "tables ?db (full_table_name ?t)
      (key_of (primary_key ?db (full_table_name ?t)) (dict_zip plain_keys (plain_row 99)))
      = Some ?p1"
    by (simp only: full_table_name_ex primary_key_ex_db plain_key_of tables_ex_db)
  from discard_on_conflict [of ?db ?t ex_key ?p1 plain_keys "[plain_row 99, plain_row 7]"
      "plain_row 99"] stored coll
  show ?thesis by (simp add: full_table_name_ex)
qed

text \<open>
  C3. Writing the same batch with \<open>mysql_insert_ignore\<close> any number of times, at
  least once, leaves the database as one write of it does.
\<close>

theorem insert_ignore_idempotent:
  "1 \<le> n \<Longrightarrow>
   ((\<lambda>conn. mysql_insert_ignore table conn keys data_iter) ^^ n) conn
     = mysql_insert_ignore table conn keys data_iter"
proof (induction n)
  case 0
  then show ?case by simp
next
  case (Suc n)
  show ?case
  proof (cases "n = 0")
    case True
    then show ?thesis by simp
  next
    case False
    then have "((\<lambda>conn. mysql_insert_ignore table conn keys data_iter) ^^ n) conn
        = mysql_insert_ignore table conn keys data_iter"
      using Suc.IH by simp
    then show ?thesis by (simp add: mysql_insert_ignore_twice)
  qed
qed

theorem insert_ignore_idempotent_witness:
  "(1::nat) \<le> 3
   \<and> ((\<lambda>conn. mysql_insert_ignore (ex_table_of ''t_dividend'') conn plain_keys
            [plain_row 10, plain_row 99]) ^^ 3)
         \<lparr>primary_key = (\<lambda>t. [''ts_code'', ''end_date'']), tables = (\<lambda>t. Map.empty)\<rparr>
       = mysql_insert_ignore (ex_table_of ''t_dividend'')
           \<lparr>primary_key = (\<lambda>t. [''ts_code'', ''end_date'']), tables = (\<lambda>t. Map.empty)\<rparr>
           plain_keys [plain_row 10, plain_row 99]"
  using insert_ignore_idempotent [of 3 "ex_table_of ''t_dividend''" plain_keys
      "[plain_row 10, plain_row 99]"
      "\<lparr>primary_key = (\<lambda>t. [''ts_code'', ''end_date'']), tables = (\<lambda>t. Map.empty)\<rparr>"]
  by simp

text \<open>
  C4. A batch written by \<open>mysql_insert_update\<close> whose keys do not contain
  \<^verbatim>\<open>update_flag\<close>: when the key of the incoming row is already stored, every column
  of the batch takes the incoming value, whatever was stored; columns outside the batch
  keep the stored value.
\<close>

theorem full_overwrite:
  assumes "''update_flag'' \<notin> set keys"
    and "tables conn (full_table_name table)
           (key_of (primary_key conn (full_table_name table)) (dict_zip keys r)) = Some e"
  shows "tables (mysql_insert_update table conn keys [r]) (full_table_name table)
           = (tables conn (full_table_name table))
               (key_of (primary_key conn (full_table_name table)) (dict_zip keys r) \<mapsto>
                  (\<lambda>c. if c \<in> set keys then dict_zip keys r c else e c))"
proof -
  let ?t = "full_table_name table"
  let ?d = "dict_zip keys r"
  let ?stmt = "INSERT_UPDATE ?t keys (update_cols keys)"
  have "exec_row (primary_key conn ?t) ?stmt ?d (tables conn ?t)
      = (tables conn ?t)(key_of (primary_key conn ?t) ?d \<mapsto>
          (\<lambda>c. if c \<in> set keys then ?d c else e c))"
    using assms by (simp add: Let_def inserted_dict_zip on_duplicate_plain)
  then show ?thesis
    unfolding mysql_insert_update_def Let_def tables_execute by simp
qed

theorem full_overwrite_witness:
  "''update_flag'' \<notin> set plain_keys
   \<and> tables (ex_db ''t_fina_indicator'' (dict_zip plain_keys (plain_row 10)))
         (full_table_name (ex_table_of ''t_fina_indicator'')) ex_key
       = Some (dict_zip plain_keys (plain_row 10))
   \<and> (\<exists>e. tables (mysql_insert_update (ex_table_of ''t_fina_indicator'')
              (ex_db ''t_fina_indicator'' (dict_zip plain_keys (plain_row 10)))
              plain_keys [plain_row 99]) ''t_fina_indicator'' ex_key = Some e
            \<and> e ''A'' = Some (IntV 99))"
proof -
  let ?old = "dict_zip plain_keys (plain_row 10)"
  let ?db = "ex_db ''t_fina_indicator'' ?old"
  let ?t = "ex_table_of ''t_fina_indicator''"
  have noflag: "''update_flag'' \<notin> set plain_keys"
    by (simp add: plain_keys_def)
  have stored: "tables ?db (full_table_name ?t) ex_key = Some ?old"
    by (simp add: full_table_name_ex tables_ex_db)
  have coll: "tables ?db (full_table_name ?t)
      (key_of (primary_key ?db (full_table_name ?t)) (dict_zip plain_keys (plain_row 99)))
      = Some ?old"
    by (simp only: full_table_name_ex primary_key_ex_db plain_key_of tables_ex_db)
  have "tables (mysql_insert_update ?t ?db plain_keys [plain_row 99]) ''t_fina_indicator'' ex_key
        = Some (\<lambda>c. if c \<in> set plain_keys then dict_zip plain_keys (plain_row 99) c
                     else ?old c)"
    using full_overwrite [OF noflag coll]
    by (simp add: full_table_name_ex primary_key_ex_db plain_key_of)
  moreover have "''A'' \<in> set plain_keys"
    by (simp add: plain_keys_def)
  ultimately have "\<exists>e. tables (mysql_insert_update ?t ?db plain_keys [plain_row 99])
      ''t_fina_indicator'' ex_key = Some e \<and> e ''A'' = Some (IntV 99)"
    by (simp add: plain_A)
  with noflag stored show ?thesis by blast
qed

text \<open>
  C5, as the claim states it: a dividend batch in which one row has no
  \<^verbatim>\<open>ts_code\<close> is not failed by the program. With a database that does not reject
  it, the write completes with both rows handed over and the well-formed row stored.
\<close>

theorem keyless_row_is_written:
  "dict_zip plain_keys keyless_row ''ts_code'' = None
   \<and> try_block keyless_env (engine ex_world) ''601398.SH'' ''dividend'' ''t_dividend''
         mysql_insert_ignore
       = Inr (Some (mysql_insert_ignore \<lparr>schema = None, name = ''t_dividend''\<rparr>
                      (engine ex_world) plain_keys [plain_row 10, keyless_row], 2))
   \<and> tables (mysql_insert_ignore \<lparr>schema = None, name = ''t_dividend''\<rparr> (engine ex_world)
         plain_keys [plain_row 10, keyless_row]) ''t_dividend'' ex_key
       = Some (dict_zip plain_keys (plain_row 10))"
proof -
  have "dict_zip plain_keys keyless_row ''ts_code'' = None"
    by (simp add: dict_zip_def plain_keys_def keyless_row_def)
  moreover have "try_block keyless_env (engine ex_world) ''601398.SH'' ''dividend''
        ''t_dividend'' mysql_insert_ignore
      = Inr (Some (mysql_insert_ignore \<lparr>schema = None, name = ''t_dividend''\<rparr>
                     (engine ex_world) plain_keys [plain_row 10, keyless_row], 2))"
    using try_block_writes_normalized [OF keyless_setup, of mysql_insert_ignore]
    by (simp add: keyless_df_def)
  ultimately show ?thesis
    using keyless_stored by blast
qed

text \<open>
  C5, amended. The program checks no key field and raises no error of its own for a row
  without one. For a cell whose fetch returns a non-empty frame and whose marker cast
  succeeds, the batch fails exactly when the database rejects the write: the failure is
  then caught inside the cell and no row of the batch is written. When the database does
  not reject it, the whole batch is written under the policy of the table
  (\<open>mysql_insert_ignore\<close> for dividend, \<open>mysql_insert_update\<close> otherwise). Either way
  the cell ends with the pause.
\<close>

theorem write_outcome_without_validation:
  assumes "map_of TABLE_MAPPING api_name = Some table_name"
    and "ts_func env api_name ts_code = Some df" "\<not> df_empty df"
    and "normalize_update_flag env df = Some df'"
  shows "fetch_and_save_data env w ts_code api_name
     = Inr (if storage_fault env table_name (engine w) df'
            then w\<lparr>events := events w @
                   [Fetch ts_code api_name, Failed ts_code api_name, Sleep pause_ms]\<rparr>
            else w\<lparr>engine :=
                     (if api_name = ''dividend'' then mysql_insert_ignore
                      else mysql_insert_update)
                       \<lparr>schema = None, name = table_name\<rparr> (engine w) (columns df') (rows df'),
                   events := events w @
                     [Fetch ts_code api_name, Stored table_name (length (rows df')),
                      Sleep pause_ms]\<rparr>)"
proof -
  let ?m = "if api_name = ''dividend'' then mysql_insert_ignore else mysql_insert_update"
  have m: "?m = mysql_insert_ignore \<or> ?m = mysql_insert_update"
    by simp
  note tb = try_block_outcome [OF assms(2-4) m, of "engine w" table_name]
  show ?thesis
  proof (cases "storage_fault env table_name (engine w) df'")
    case True
    with tb assms(1) show ?thesis
      by (simp add: fetch_and_save_data_def Let_def)
  next
    case False
    with tb assms(1) show ?thesis
      by (simp add: fetch_and_save_data_def Let_def)
  qed
qed

theorem write_outcome_without_validation_witness:
  "map_of TABLE_MAPPING ''dividend'' = Some ''t_dividend''
   \<and> ts_func strict_env ''dividend'' ''601398.SH'' = Some keyless_df
   \<and> \<not> df_empty keyless_df
   \<and> normalize_update_flag strict_env keyless_df = Some keyless_df
   \<and> storage_fault strict_env ''t_dividend'' (engine ex_world) keyless_df
   \<and> fetch_and_save_data strict_env ex_world ''601398.SH'' ''dividend''
       = Inr (ex_world\<lparr>events :=
                [Fetch ''601398.SH'' ''dividend'', Failed ''601398.SH'' ''dividend'',
                 Sleep pause_ms]\<rparr>)
   \<and> fetch_and_save_data keyless_env ex_world ''601398.SH'' ''dividend''
       = Inr (ex_world\<lparr>engine :=
                mysql_insert_ignore \<lparr>schema = None, name = ''t_dividend''\<rparr> (engine ex_world)
                  plain_keys [plain_row 10, keyless_row],
              events :=
                [Fetch ''601398.SH'' ''dividend'', Stored ''t_dividend'' 2, Sleep pause_ms]\<rparr>)"
proof -
  have tm: "map_of TABLE_MAPPING ''dividend'' = Some ''t_dividend''"
    by (simp add: TABLE_MAPPING_def)
  have strict: "ts_func strict_env ''dividend'' ''601398.SH'' = Some keyless_df"
    "normalize_update_flag strict_env keyless_df = Some keyless_df"
    by (simp_all add: strict_env_def keyless_env_def keyless_df_def normalize_update_flag_def
        plain_keys_def)
  have rejects: "storage_fault strict_env ''t_dividend'' (engine ex_world) keyless_df"
    by (simp add: strict_env_def keyless_df_def ex_world_def keyless_key_of)
  have a: "fetch_and_save_data strict_env ex_world ''601398.SH'' ''dividend''
      = Inr (ex_world\<lparr>events :=
               [Fetch ''601398.SH'' ''dividend'', Failed ''601398.SH'' ''dividend'',
                Sleep pause_ms]\<rparr>)"
    using write_outcome_without_validation [OF tm strict(1) keyless_setup(2) strict(2),
        of ex_world] rejects
    by (simp add: ex_world_def)
  have b: "fetch_and_save_data keyless_env ex_world ''601398.SH'' ''dividend''
      = Inr (ex_world\<lparr>engine :=
               mysql_insert_ignore \<lparr>schema = None, name = ''t_dividend''\<rparr> (engine ex_world)
                 plain_keys [plain_row 10, keyless_row],
             events :=
               [Fetch ''601398.SH'' ''dividend'', Stored ''t_dividend'' 2, Sleep pause_ms]\<rparr>)"
    using write_outcome_without_validation [OF tm keyless_setup(1) keyless_setup(2)
        keyless_setup(3), of ex_world] keyless_setup(4)
    by (simp add: ex_world_def keyless_df_def)
  from tm strict keyless_setup(2) rejects a b show ?thesis by blast
qed

text \<open>
  C6, as the claim states it: a run whose registry lookup raises ends with exit code 0,
  so exit code 0 does not tell a completed run from a failed lookup.
\<close>

theorem registry_failure_exits_zero:
  "read_banks lost_registry_env = None \<and> init_ok lost_registry_env \<and> run_fetcher lost_registry_env ex_world = Exit 0 ex_world"
  by (simp add: lost_registry_env_def run_fetcher_def get_bank_codes_def)

text \<open>
  C6, amended. The exit code is 1 exactly when configuration or connection initialization
  fails and 0 otherwise, whatever happens inside the cells; a registry lookup that raises,
  like an empty registry, ends the run with exit code 0 before any cell is processed.
\<close>

theorem exit_code_reflects_initialization:
  "exit_code (run_fetcher env w) = (if init_ok env then 0 else 1)
   \<and> (init_ok env \<longrightarrow> read_banks env = None \<or> read_banks env = Some [] \<longrightarrow>
        run_fetcher env w = Exit 0 w)"
proof -
  have "exit_code (run_fetcher env w) = (if init_ok env then 0 else 1)"
    using run_shape [of env w] by auto
  moreover have "run_fetcher env w = Exit 0 w"
    if "init_ok env" "read_banks env = None \<or> read_banks env = Some []"
    using that by (auto simp: run_fetcher_def get_bank_codes_def)
  ultimately show ?thesis by blast
qed

theorem exit_code_reflects_initialization_witness:
  "init_ok lost_registry_env \<and> read_banks lost_registry_env = None
   \<and> exit_code (run_fetcher lost_registry_env ex_world) = 0
   \<and> run_fetcher lost_registry_env ex_world = Exit 0 ex_world
   \<and> exit_code (run_fetcher (lost_registry_env\<lparr>init_ok := False\<rparr>) ex_world) = 1"
  using exit_code_reflects_initialization [of lost_registry_env ex_world]
    exit_code_reflects_initialization [of "lost_registry_env\<lparr>init_ok := False\<rparr>" ex_world]
  by (simp add: lost_registry_env_def)

text \<open>
  C7. Once initialization and the registry lookup succeed, the run ends normally and has
  issued the fetch of every cell of bank codes times \<^verbatim>\<open>TS_API_LIST\<close>, in that
  order, whatever fetches and writes failed on the way.
\<close>

theorem failure_isolation:
  "init_ok env \<Longrightarrow> read_banks env = Some codes \<Longrightarrow>
   \<exists>w'. run_fetcher env w = Exit 0 w'
     \<and> fetches (events w') = fetches (events w) @ List.product codes TS_API_LIST"
proof -
  assume a: "init_ok env" "read_banks env = Some codes"
  then have "get_bank_codes env = codes"
    by (simp add: get_bank_codes_def)
  with a run_shape [of env w] show ?thesis
    by (auto simp: fetches_append)
qed

theorem failure_isolation_witness:
  "init_ok flaky_env \<and> read_banks flaky_env = Some [''601398.SH'', ''600036.SH'']
   \<and> ts_func flaky_env ''income'' ''601398.SH'' = None
   \<and> (\<exists>w'. run_fetcher flaky_env ex_world = Exit 0 w'
        \<and> fetches (events w') =
            [(''601398.SH'', ''income''), (''601398.SH'', ''balancesheet''),
             (''601398.SH'', ''fina_indicator''), (''601398.SH'', ''dividend''),
             (''600036.SH'', ''income''), (''600036.SH'', ''balancesheet''),
             (''600036.SH'', ''fina_indicator''), (''600036.SH'', ''dividend'')])"
proof -
  have a: "init_ok flaky_env" "read_banks flaky_env = Some [''601398.SH'', ''600036.SH'']"
    "ts_func flaky_env ''income'' ''601398.SH'' = None"
    by (simp_all add: flaky_env_def)
  from failure_isolation [OF a(1) a(2), of ex_world] a show ?thesis
    by (simp add: ex_world_def TS_API_LIST_def TABLE_MAPPING_def)
qed

text \<open>
  C8. In the trace of every run, no fetch is issued while the pause owed for the fetch
  before it is outstanding, and no pause is owed when the run ends: each cell, whether it
  stored rows, found none or failed, is followed by a pause of \<open>pause_ms\<close>.
\<close>

theorem pause_after_every_cell:
  "\<exists>n w'. run_fetcher env \<lparr>engine = db, events = []\<rparr> = Exit n w'
     \<and> pace False (events w') = Some False"
  using run_shape [of env "\<lparr>engine = db, events = []\<rparr>"] by auto

theorem pause_after_every_cell_witness:
  "\<exists>n w'. run_fetcher flaky_env \<lparr>engine = engine ex_world, events = []\<rparr> = Exit n w'
     \<and> pace False (events w') = Some False"
  using pause_after_every_cell [of flaky_env "engine ex_world"] by simp

text \<open>
  C9. \<open>to_sql\<close> with any positive chunk size, 5000 among them, leaves the database as
  a single call of the write method on the whole batch does, for either write method.
\<close>

theorem chunking_transparent:
  "0 < n \<Longrightarrow>
   to_sql df table_name db n mysql_insert_ignore
     = Inr (mysql_insert_ignore \<lparr>schema = None, name = table_name\<rparr> db (columns df) (rows df))
   \<and> to_sql df table_name db n mysql_insert_update
     = Inr (mysql_insert_update \<lparr>schema = None, name = table_name\<rparr> db (columns df) (rows df))"
proof -
  assume n: "0 < n"
  let ?t = "\<lparr>schema = None, name = table_name\<rparr>"
  have a: "fold (\<lambda>chunk conn. mysql_insert_ignore ?t conn (columns df) chunk)
             (chunked n (rows df)) db
           = mysql_insert_ignore ?t db (columns df) (rows df)"
    by (rule fold_chunked [where m = "\<lambda>c xs. mysql_insert_ignore ?t c (columns df) xs"])
       (simp_all add: mysql_insert_ignore_Nil mysql_insert_ignore_append n)
  have b: "fold (\<lambda>chunk conn. mysql_insert_update ?t conn (columns df) chunk)
             (chunked n (rows df)) db
           = mysql_insert_update ?t db (columns df) (rows df)"
    by (rule fold_chunked [where m = "\<lambda>c xs. mysql_insert_update ?t c (columns df) xs"])
       (simp_all add: mysql_insert_update_Nil mysql_insert_update_append n)
  show ?thesis
    using n by (simp add: to_sql_def a b mysql_insert_ignore_Nil mysql_insert_update_Nil)
qed

theorem chunking_transparent_witness:
  "(0::nat) < 2
   \<and> chunked 2 [plain_row 1, plain_row 2, plain_row 3]
       = [[plain_row 1, plain_row 2], [plain_row 3]]
   \<and> to_sql \<lparr>columns = plain_keys, rows = [plain_row 1, plain_row 2, plain_row 3]\<rparr>
         ''t_dividend'' (ex_db ''t_dividend'' Map.empty) 2 mysql_insert_ignore
       = Inr (mysql_insert_ignore \<lparr>schema = None, name = ''t_dividend''\<rparr>
                (ex_db ''t_dividend'' Map.empty) plain_keys
                [plain_row 1, plain_row 2, plain_row 3])
   \<and> to_sql \<lparr>columns = plain_keys, rows = [plain_row 1, plain_row 2, plain_row 3]\<rparr>
         ''t_income'' (ex_db ''t_income'' Map.empty) 2 mysql_insert_update
       = Inr (mysql_insert_update \<lparr>schema = None, name = ''t_income''\<rparr>
                (ex_db ''t_income'' Map.empty) plain_keys
                [plain_row 1, plain_row 2, plain_row 3])"
proof -
  have two: "(0::nat) < 2" by simp
  have cut: "chunked 2 [plain_row 1, plain_row 2, plain_row 3]
      = [[plain_row 1, plain_row 2], [plain_row 3]]"
    by (simp add: chunked.simps [of 2 "[plain_row 1, plain_row 2, plain_row 3]"]
        chunked.simps [of 2 "[plain_row 3]"] chunked.simps [of 2 "[]"])
  from chunking_transparent [OF two,
      of "\<lparr>columns = plain_keys, rows = [plain_row 1, plain_row 2, plain_row 3]\<rparr>"
        "''t_dividend''" "ex_db ''t_dividend'' Map.empty"]
    chunking_transparent [OF two,
      of "\<lparr>columns = plain_keys, rows = [plain_row 1, plain_row 2, plain_row 3]\<rparr>"
        "''t_income''" "ex_db ''t_income'' Map.empty"]
    cut
  show ?thesis by simp
qed

text \<open>
  C10. In a frame that has the \<^verbatim>\<open>update_flag\<close> column and whose cast does not raise,
  a row whose marker is missing leaves the cast with marker 0 and its other columns as they
  were; the cast frame is the one handed to the write; and written by
  \<open>mysql_insert_update\<close>, that row leaves the database unchanged when its key is
  stored, and is inserted as it is when its key is not.
\<close>

theorem missing_marker_never_overwrites:
  assumes "''update_flag'' \<in> set (columns df)"
    and "normalize_update_flag env df = Some df'"
    and "i < length (rows df)"
    and "length (rows df ! i) = length (columns df)"
    and "dict_zip (columns df) (rows df ! i) ''update_flag'' = None"
  shows "columns df' = columns df \<and> length (rows df') = length (rows df)
    \<and> dict_zip (columns df) (rows df' ! i) ''update_flag'' = Some (IntV 0)
    \<and> (\<forall>k. k \<noteq> ''update_flag'' \<longrightarrow>
          dict_zip (columns df) (rows df' ! i) k = dict_zip (columns df) (rows df ! i) k)
    \<and> (\<forall>table conn e.
          tables conn (full_table_name table)
            (key_of (primary_key conn (full_table_name table))
               (dict_zip (columns df) (rows df' ! i))) = Some e \<longrightarrow>
          mysql_insert_update table conn (columns df) [rows df' ! i] = conn)
    \<and> (\<forall>ts_code api_name db table_name.
          ts_func env api_name ts_code = Some df \<longrightarrow> \<not> df_empty df \<longrightarrow>
          \<not> storage_fault env table_name db df' \<longrightarrow>
          try_block env db ts_code api_name table_name mysql_insert_update
            = Inr (Some (mysql_insert_update \<lparr>schema = None, name = table_name\<rparr> db
                           (columns df) (rows df'), length (rows df))))
    \<and> (\<forall>table conn.
          tables conn (full_table_name table)
            (key_of (primary_key conn (full_table_name table))
               (dict_zip (columns df) (rows df' ! i))) = None \<longrightarrow>
          tables (mysql_insert_update table conn (columns df) [rows df' ! i])
              (full_table_name table)
            = (tables conn (full_table_name table))
                (key_of (primary_key conn (full_table_name table))
                   (dict_zip (columns df) (rows df' ! i)) \<mapsto>
                 dict_zip (columns df) (rows df' ! i)))"
proof -
  from assms(1,2) obtain rs' where
    rs': "cast_rows env (columns df) (rows df) = Some rs'" and df': "df' = df\<lparr>rows := rs'\<rparr>"
    by (auto simp: normalize_update_flag_def)
  from cast_rows_nth [OF rs'] assms(3) have
    len: "length rs' = length (rows df)"
    and row: "cast_row env (columns df) (rows df ! i) = Some (rs' ! i)"
    by auto
  have marker: "dict_zip (columns df) (rs' ! i) ''update_flag'' = Some (IntV 0)"
    unfolding dict_zip_def
    using cast_row_marker [OF row assms(4) assms(1)] assms(5)
    by (simp add: dict_zip_def)
  have others: "dict_zip (columns df) (rs' ! i) k = dict_zip (columns df) (rows df ! i) k"
    if "k \<noteq> ''update_flag''" for k
    unfolding dict_zip_def using cast_row_others [OF row that] by simp
  have stale: "mysql_insert_update table conn (columns df) [rs' ! i] = conn"
    if "tables conn (full_table_name table)
          (key_of (primary_key conn (full_table_name table))
             (dict_zip (columns df) (rs' ! i))) = Some e" for table conn e
    using insert_update_stale [OF assms(1) that] marker by simp
  have handed: "try_block env db ts_code api_name table_name mysql_insert_update
      = Inr (Some (mysql_insert_update \<lparr>schema = None, name = table_name\<rparr> db
                     (columns df) rs', length (rows df)))"
    if "ts_func env api_name ts_code = Some df" "\<not> df_empty df"
      "\<not> storage_fault env table_name db (df\<lparr>rows := rs'\<rparr>)"
    for ts_code api_name db table_name
    using try_block_outcome [OF that(1,2) assms(2), of mysql_insert_update db table_name]
      that(3) len
    by (simp add: df')
  show ?thesis
    using len marker others stale insert_update_fresh handed
    by (simp add: df')
qed

theorem missing_marker_never_overwrites_witness:
  "''update_flag'' \<in> set (columns nan_df)
   \<and> normalize_update_flag lost_registry_env nan_df = Some zero_df
   \<and> (0::nat) < length (rows nan_df)
   \<and> length (rows nan_df ! 0) = length (columns nan_df)
   \<and> dict_zip (columns nan_df) (rows nan_df ! 0) ''update_flag'' = None
   \<and> dict_zip ex_keys (ex_row 99 (Some (IntV 0))) ''update_flag'' = Some (IntV 0)
   \<and> mysql_insert_update (ex_table_of ''t_income'')
        (ex_db ''t_income'' (dict_zip ex_keys (ex_row 10 (Some (IntV 1)))))
        ex_keys [ex_row 99 (Some (IntV 0))]
      = ex_db ''t_income'' (dict_zip ex_keys (ex_row 10 (Some (IntV 1))))
   \<and> tables (mysql_insert_update (ex_table_of ''t_income'')
        \<lparr>primary_key = (\<lambda>t. [''ts_code'', ''end_date'']), tables = (\<lambda>t. Map.empty)\<rparr>
        ex_keys [ex_row 99 (Some (IntV 0))]) ''t_income'' ex_key
      = Some (dict_zip ex_keys (ex_row 99 (Some (IntV 0))))"
proof -
  let ?old = "dict_zip ex_keys (ex_row 10 (Some (IntV 1)))"
  let ?db = "ex_db ''t_income'' ?old"
  let ?empty = "\<lparr>primary_key = (\<lambda>t. [''ts_code'', ''end_date'']), tables = (\<lambda>t. Map.empty)\<rparr>"
  let ?t = "ex_table_of ''t_income''"
  have h1: "''update_flag'' \<in> set (columns nan_df)"
    by (simp add: nan_df_def ex_keys_def)
  have h2: "normalize_update_flag lost_registry_env nan_df = Some zero_df"
    by (rule normalize_nan_df)
  have h3: "(0::nat) < length (rows nan_df)"
    by (simp add: nan_df_def)
  have h4: "length (rows nan_df ! 0) = length (columns nan_df)"
    by (simp add: nan_df_def ex_keys_def ex_row_def)
  have h5: "dict_zip (columns nan_df) (rows nan_df ! 0) ''update_flag'' = None"
    by (simp add: nan_df_def ex_marker)
  have cols: "columns nan_df = ex_keys" and row: "rows zero_df ! 0 = ex_row 99 (Some (IntV 0))"
    by (simp_all add: nan_df_def zero_df_def)
  note main = missing_marker_never_overwrites [OF h1 h2 h3 h4 h5, unfolded cols row]
  have coll: "tables ?db (full_table_name ?t)
      (key_of (primary_key ?db (full_table_name ?t)) (dict_zip ex_keys (ex_row 99 (Some (IntV 0)))))
      = Some ?old"
    by (simp only: full_table_name_ex primary_key_ex_db ex_key_of tables_ex_db)
  have fresh: "tables ?empty (full_table_name ?t)
      (key_of (primary_key ?empty (full_table_name ?t))
         (dict_zip ex_keys (ex_row 99 (Some (IntV 0))))) = None"
    by simp
  from main have c3: "dict_zip ex_keys (ex_row 99 (Some (IntV 0))) ''update_flag'' = Some (IntV 0)"
    by blast
  from main coll have c5: "mysql_insert_update ?t ?db ex_keys [ex_row 99 (Some (IntV 0))] = ?db"
    by blast
  from main fresh have "tables (mysql_insert_update ?t ?empty ex_keys [ex_row 99 (Some (IntV 0))])
        (full_table_name ?t)
      = (tables ?empty (full_table_name ?t))
          (key_of (primary_key ?empty (full_table_name ?t))
             (dict_zip ex_keys (ex_row 99 (Some (IntV 0)))) \<mapsto>
           dict_zip ex_keys (ex_row 99 (Some (IntV 0))))"
    by blast
  then have c6: "tables (mysql_insert_update ?t ?empty ex_keys [ex_row 99 (Some (IntV 0))])
      ''t_income'' ex_key = Some (dict_zip ex_keys (ex_row 99 (Some (IntV 0))))"
    by (simp add: full_table_name_ex ex_key_of)
  from h1 h2 h3 h4 h5 c3 c5 c6 show ?thesis by blast
qed

end
